theory Spec2Isabelle
  imports Main "HOL-Library.AList"
begin

section \<open>JavaScript values\<close>

text \<open>
  The module \<^verbatim>\<open>confirm.js\<close> is dynamically typed: its arguments, the transport's error
  and response objects and what it hands to the callback are all plain JavaScript values.
  An object is the list of its own enumerable properties in insertion order. An array
  keeps its elements and, beside them, the properties assigned to it. \<open>JErr m ps\<close> is
  an instance of \<^verbatim>\<open>Error\<close> built with a message: \<open>m\<close> is the current value of its
  (non-enumerable) \<^verbatim>\<open>message\<close> property and \<open>ps\<close> the properties assigned to it.
  Numbers are the integers (HTTP status codes); functions, boxed primitives, getters and
  the properties inherited from prototypes (\<^verbatim>\<open>length\<close>, \<^verbatim>\<open>name\<close>, \<^verbatim>\<open>stack\<close>) are
  outside the model: the module reads none of them.
\<close>

datatype jsval =
    JUndefined
  | JNull
  | JBool bool
  | JNum int
  | JStr string
  | JArr "jsval list" "(string \<times> jsval) list"
  | JObj "(string \<times> jsval) list"
  | JErr jsval "(string \<times> jsval) list"

text \<open>What a JavaScript expression of the module can throw.\<close>

datatype thrown = TypeError | Raised jsval

abbreviation emptyArray :: jsval where
  "emptyArray \<equiv> JArr [] []"

text \<open>\<^verbatim>\<open>v == null\<close>: true of \<^verbatim>\<open>null\<close> and \<^verbatim>\<open>undefined\<close> only.\<close>

fun nullish :: "jsval \<Rightarrow> bool" where
  "nullish JUndefined = True"
| "nullish JNull = True"
| "nullish _ = False"

text \<open>ToBoolean, as \<^verbatim>\<open>&&\<close>, \<^verbatim>\<open>||\<close> and \<^verbatim>\<open>?:\<close> apply it.\<close>

fun truthy :: "jsval \<Rightarrow> bool" where
  "truthy JUndefined = False"
| "truthy JNull = False"
| "truthy (JBool b) = b"
| "truthy (JNum n) = (n \<noteq> 0)"
| "truthy (JStr s) = (s \<noteq> [])"
| "truthy _ = True"

text \<open>lodash's \<^verbatim>\<open>_.isString\<close>.\<close>

fun isString :: "jsval \<Rightarrow> bool" where
  "isString (JStr s) = True"
| "isString _ = False"

text \<open>
  lodash's \<^verbatim>\<open>_.isEmpty\<close>: \<^verbatim>\<open>null\<close> and \<^verbatim>\<open>undefined\<close> are empty, a string or an array
  is empty when its length is 0, anything else when it has no own enumerable property
  (so every number and boolean is empty).
\<close>

fun isEmpty :: "jsval \<Rightarrow> bool" where
  "isEmpty JUndefined = True"
| "isEmpty JNull = True"
| "isEmpty (JBool b) = True"
| "isEmpty (JNum n) = True"
| "isEmpty (JStr s) = (s = [])"
| "isEmpty (JArr xs ps) = (xs = [])"
| "isEmpty (JObj ps) = (ps = [])"
| "isEmpty (JErr m ps) = (ps = [])"

text \<open>
  Reading the property \<open>k\<close> of a value that is neither \<^verbatim>\<open>null\<close> nor \<^verbatim>\<open>undefined\<close>:
  a missing property reads as \<^verbatim>\<open>undefined\<close>, and so does any property of a primitive.
\<close>

fun prop_of :: "jsval \<Rightarrow> string \<Rightarrow> jsval" where
  "prop_of (JObj ps) k = (case map_of ps k of Some v \<Rightarrow> v | None \<Rightarrow> JUndefined)"
| "prop_of (JArr xs ps) k = (case map_of ps k of Some v \<Rightarrow> v | None \<Rightarrow> JUndefined)"
| "prop_of (JErr m ps) k =
     (if k = ''message'' then m
      else case map_of ps k of Some v \<Rightarrow> v | None \<Rightarrow> JUndefined)"
| "prop_of _ k = JUndefined"

text \<open>\<^verbatim>\<open>v.k\<close>: a TypeError on \<^verbatim>\<open>null\<close> and \<^verbatim>\<open>undefined\<close>.\<close>

definition get_prop :: "jsval \<Rightarrow> string \<Rightarrow> thrown + jsval" where
  "get_prop v k = (if nullish v then Inl TypeError else Inr (prop_of v k))"

text \<open>
  \<^verbatim>\<open>o.k = v\<close> under \<^verbatim>\<open>'use strict'\<close> (line 16): the object with the property set, in
  place when it exists and appended otherwise; a TypeError on a primitive.
\<close>

fun set_prop :: "jsval \<Rightarrow> string \<Rightarrow> jsval \<Rightarrow> thrown + jsval" where
  "set_prop (JObj ps) k v = Inr (JObj (AList.update k v ps))"
| "set_prop (JArr xs ps) k v = Inr (JArr xs (AList.update k v ps))"
| "set_prop (JErr m ps) k v =
     (if k = ''message'' then Inr (JErr v ps) else Inr (JErr m (AList.update k v ps)))"
| "set_prop _ k v = Inl TypeError"

text \<open>Sequencing of expressions that may throw.\<close>

definition andThen :: "thrown + 'a \<Rightarrow> ('a \<Rightarrow> thrown + 'b) \<Rightarrow> thrown + 'b" where
  "andThen m f = (case m of Inl t \<Rightarrow> Inl t | Inr v \<Rightarrow> f v)"

text \<open>
  \<^verbatim>\<open>x && x.k\<close>, where \<open>x\<close> has been evaluated already: \<open>x\<close> itself when it is falsy,
  its property \<open>k\<close> otherwise.
\<close>

definition and_prop :: "thrown + jsval \<Rightarrow> string \<Rightarrow> thrown + jsval" where
  "and_prop x k = andThen x (\<lambda>v. if truthy v then get_prop v k else Inr v)"

text \<open>\<^verbatim>\<open>x || d\<close>.\<close>

definition or_default :: "thrown + jsval \<Rightarrow> jsval \<Rightarrow> thrown + jsval" where
  "or_default x d = andThen x (\<lambda>v. Inr (if truthy v then v else d))"

text \<open>
  The decimal digits of a non-negative integer, as a template literal prints a status
  code.
\<close>

definition digit :: "nat \<Rightarrow> char" where
  "digit n = ''0123456789'' ! n"

fun show_nat :: "nat \<Rightarrow> string" where
  "show_nat n = (if n < 10 then [digit n] else show_nat (n div 10) @ [digit (n mod 10)])"

declare show_nat.simps [simp del]

text \<open>The characters of a string value; the module substitutes only strings.\<close>

fun chars :: "jsval \<Rightarrow> string" where
  "chars (JStr s) = s"
| "chars _ = []"

section \<open>Collaborators\<close>

text \<open>
  \<^verbatim>\<open>common\<close> is injected (line 20) and not part of the module: what the module reads
  of it is a parameter of every operation. \<^verbatim>\<open>common.assertArgumentsSize(arguments, n)\<close>
  checks the number of arguments of a call; each operation below takes exactly the
  arguments its signature lists, the callback included, so the check passes.
\<close>

record common =
  makeAPIUrl :: "string \<Rightarrow> string"
  getToken :: jsval
  getSessionTrace :: jsval
  STATUS_BAD_REQUEST :: jsval
  SESSION_TOKEN_HEADER :: string

text \<open>
  A request handed to a transport: to \<^verbatim>\<open>fetch(url, init)\<close> or to the superagent
  chain \<^verbatim>\<open>.put(url)/.get(url) .set(..) .send(..) .end(..)\<close>.
\<close>

datatype transport = Fetch | Superagent

record request =
  via :: transport
  http_method :: string
  url :: string
  headers :: "(string \<times> jsval) list"
  send :: "jsval option"
  cache :: "string option"

text \<open>
  What the synchronous part of an operation does: it throws, or it invokes the callback
  at once with the given arguments, or it issues one request (whose completion invokes
  the callback later). Only \<open>Issues\<close> reaches the network.
\<close>

datatype started = Throws thrown | CallsBack "jsval list" | Issues request

text \<open>
  What \<^verbatim>\<open>fetch\<close> settles with: a response, of which the module reads \<^verbatim>\<open>ok\<close>,
  \<^verbatim>\<open>status\<close> and \<^verbatim>\<open>text()\<close> (a promise: \<open>Inr\<close> the text it resolves with,
  \<open>Inl\<close> the reason it rejects with), or a rejection.
\<close>

record response =
  ok :: bool
  status :: nat
  text_result :: "jsval + string"

datatype fetch_result = Resolves response | Rejects jsval

section \<open>The fetch-style operations\<close>

text \<open>
  A default parameter value (\<^verbatim>\<open>lang = 'en'\<close>, \<^verbatim>\<open>info = true\<close>) replaces an argument
  that is \<^verbatim>\<open>undefined\<close>.
\<close>

definition default_to :: "jsval \<Rightarrow> jsval \<Rightarrow> jsval" where
  "default_to d v = (if v = JUndefined then d else v)"

text \<open>\<^verbatim>\<open>signupStart(invitedId, lang = 'en', cb)\<close>, lines 32 to 45.\<close>

definition signupStart :: "common \<Rightarrow> jsval \<Rightarrow> jsval \<Rightarrow> started" where
  "signupStart c invitedId lang =
     (if isEmpty invitedId \<or> \<not> isString invitedId
      then Throws (Raised (JErr (JStr ''Invalid parameter invitedId'') []))
      else Issues \<lparr>
        via = Fetch,
        http_method = ''POST'',
        url = makeAPIUrl c (''/confirm/send/signup/'' @ chars invitedId),
        headers = [
          (''x-tidepool-session-token'', getToken c),
          (''x-tidepool-trace-session'', getSessionTrace c),
          (''x-tidepool-language'', default_to (JStr ''en'') lang)],
        send = None,
        cache = Some ''no-cache'' \<rparr>)"

text \<open>
  Lines 46 to 53: the arguments the callback is invoked with once \<^verbatim>\<open>fetch\<close> settles
  (the callback itself is taken to return normally).
\<close>

definition signupStart_settle :: "fetch_result \<Rightarrow> jsval list" where
  "signupStart_settle r =
     (case r of
        Resolves resp \<Rightarrow>
          if ok resp then [JNull]
          else [JErr (JStr (''Invalid HTTP response '' @ show_nat (status resp))) []]
      | Rejects reason \<Rightarrow> [reason])"

text \<open>\<^verbatim>\<open>signupResend(email, lang = 'en', cb)\<close>, lines 111 to 124.\<close>

definition signupResend :: "common \<Rightarrow> jsval \<Rightarrow> jsval \<Rightarrow> started" where
  "signupResend c email lang =
     (if isEmpty email \<or> \<not> isString email
      then Throws (Raised (JErr (JStr ''Invalid parameter email'') []))
      else Issues \<lparr>
        via = Fetch,
        http_method = ''POST'',
        url = makeAPIUrl c (''/confirm/resend/signup/'' @ chars email),
        headers = [
          (''x-tidepool-trace-session'', getSessionTrace c),
          (''x-tidepool-language'', default_to (JStr ''en'') lang)],
        send = None,
        cache = Some ''no-cache'' \<rparr>)"

text \<open>
  Lines 125 to 132: a rejection of \<^verbatim>\<open>response.text()\<close> is caught by the trailing
  \<^verbatim>\<open>catch\<close>.
\<close>

definition signupResend_settle :: "fetch_result \<Rightarrow> jsval list" where
  "signupResend_settle r =
     (case r of
        Resolves resp \<Rightarrow>
          if ok resp then [JNull]
          else (case text_result resp of
                  Inr t \<Rightarrow> [JObj [(''status'', JNum (int (status resp))), (''message'', JStr t)]]
                | Inl reason \<Rightarrow> [reason])
      | Rejects reason \<Rightarrow> [reason])"

text \<open>\<^verbatim>\<open>requestPasswordReset(email, info = true, lang = 'en', cb)\<close>, lines 276 to 289.\<close>

definition requestPasswordReset :: "common \<Rightarrow> jsval \<Rightarrow> jsval \<Rightarrow> jsval \<Rightarrow> started" where
  "requestPasswordReset c email info lang =
     (if isEmpty email \<or> \<not> isString email
      then Throws (Raised (JErr (JStr ''Invalid parameter email'') []))
      else Issues \<lparr>
        via = Fetch,
        http_method = ''POST'',
        url = makeAPIUrl c (''/confirm/send/forgot/'' @ chars email
                @ (if truthy (default_to (JBool True) info) then ''?info=ok'' else [])),
        headers = [
          (''x-tidepool-trace-session'', getSessionTrace c),
          (''x-tidepool-language'', default_to (JStr ''en'') lang)],
        send = None,
        cache = Some ''no-cache'' \<rparr>)"

text \<open>Lines 290 to 297.\<close>

definition requestPasswordReset_settle :: "fetch_result \<Rightarrow> jsval list" where
  "requestPasswordReset_settle r =
     (case r of
        Resolves resp \<Rightarrow>
          if ok resp then [JNull]
          else (case text_result resp of
                  Inr t \<Rightarrow> [JObj [(''status'', JNum (int (status resp))), (''message'', JStr t)]]
                | Inl reason \<Rightarrow> [reason])
      | Rejects reason \<Rightarrow> [reason])"

text \<open>
  A whole call: what it throws, or the request it issued (if any) together with the
  arguments its callback got.
\<close>

datatype completed = Threw thrown | Done "request option" "jsval list"

definition requestPasswordReset_run ::
  "common \<Rightarrow> jsval \<Rightarrow> jsval \<Rightarrow> jsval \<Rightarrow> fetch_result \<Rightarrow> completed" where
  "requestPasswordReset_run c email info lang r =
     (case requestPasswordReset c email info lang of
        Throws t \<Rightarrow> Threw t
      | CallsBack args \<Rightarrow> Done None args
      | Issues rq \<Rightarrow> Done (Some rq) (requestPasswordReset_settle r))"

section \<open>The superagent-style operations\<close>

text \<open>
  Each operation issues one request and completes in the function given to
  \<^verbatim>\<open>.end\<close>, which superagent calls with \<^verbatim>\<open>(err, res)\<close>. The \<open>_end\<close> functions
  are those completion functions: \<open>Inr\<close> the arguments the callback is invoked with,
  \<open>Inl\<close> what the completion function throws instead. The identifiers spliced into
  the URLs by \<^verbatim>\<open>+\<close> are strings, as the documentation comments declare them.
\<close>

text \<open>\<^verbatim>\<open>signupConfirm(signupId, cb)\<close>, lines 62 to 65.\<close>

definition signupConfirm :: "common \<Rightarrow> string \<Rightarrow> started" where
  "signupConfirm c signupId =
     Issues \<lparr>
       via = Superagent,
       http_method = ''PUT'',
       url = makeAPIUrl c (''/confirm/accept/signup/'' @ signupId),
       headers = [],
       send = None,
       cache = None \<rparr>"

text \<open>Lines 66 to 76.\<close>

definition signupConfirm_end :: "jsval \<Rightarrow> jsval \<Rightarrow> thrown + jsval list" where
  "signupConfirm_end err res =
     (if \<not> nullish err then
        andThen (or_default
                   (and_prop (and_prop (get_prop err ''response'') ''body'') ''reason'')
                   (JStr [])) (\<lambda>m.
        andThen (set_prop err ''message'' m) (\<lambda>err'.
        Inr [err']))
      else
        andThen (get_prop res ''status'') (\<lambda>st.
        if st \<noteq> JNum 200 then
          andThen (get_prop res ''body'') (\<lambda>b.
          andThen (get_prop b ''reason'') (\<lambda>reason.
          Inr [JObj [(''status'', st), (''message'', reason)]]))
        else Inr []))"

text \<open>\<^verbatim>\<open>custodialSignupConfirm(signupId, birthday, password, cb)\<close>, lines 87 to 91.\<close>

definition custodialSignupConfirm :: "common \<Rightarrow> string \<Rightarrow> jsval \<Rightarrow> jsval \<Rightarrow> started" where
  "custodialSignupConfirm c signupId birthday password =
     Issues \<lparr>
       via = Superagent,
       http_method = ''PUT'',
       url = makeAPIUrl c (''/confirm/accept/signup/'' @ signupId),
       headers = [],
       send = Some (JObj [(''birthday'', birthday), (''password'', password)]),
       cache = None \<rparr>"

text \<open>Lines 92 to 102.\<close>

definition custodialSignupConfirm_end :: "jsval \<Rightarrow> jsval \<Rightarrow> thrown + jsval list" where
  "custodialSignupConfirm_end err res =
     (if \<not> nullish err then
        andThen (or_default
                   (and_prop (and_prop (get_prop err ''response'') ''body'') ''error'')
                   (JStr [])) (\<lambda>e.
        andThen (set_prop err ''error'' e) (\<lambda>err'.
        andThen (or_default
                   (and_prop (and_prop (get_prop err' ''response'') ''body'') ''reason'')
                   (JStr [])) (\<lambda>m.
        andThen (set_prop err' ''message'' m) (\<lambda>err''.
        Inr [err'']))))
      else
        andThen (get_prop res ''status'') (\<lambda>st.
        if st \<noteq> JNum 200 then
          andThen (get_prop res ''body'') (\<lambda>b.
          andThen (get_prop b ''error'') (\<lambda>e.
          andThen (get_prop b ''reason'') (\<lambda>reason.
          Inr [JObj [(''status'', st), (''error'', e), (''message'', reason)]])))
        else Inr []))"

text \<open>\<^verbatim>\<open>invitesReceived(inviteeId, cb)\<close>, lines 171 to 176.\<close>

definition invitesReceived :: "common \<Rightarrow> string \<Rightarrow> started" where
  "invitesReceived c inviteeId =
     Issues \<lparr>
       via = Superagent,
       http_method = ''GET'',
       url = makeAPIUrl c (''/confirm/invitations/'' @ inviteeId),
       headers = [(SESSION_TOKEN_HEADER c, getToken c)],
       send = None,
       cache = None \<rparr>"

text \<open>Lines 178 to 192.\<close>

definition invitesReceived_end :: "jsval \<Rightarrow> jsval \<Rightarrow> thrown + jsval list" where
  "invitesReceived_end err res =
     (if \<not> nullish err then
        andThen (get_prop err ''status'') (\<lambda>est.
        if est = JNum 404 then Inr [JNull, emptyArray]
        else
          andThen (or_default (and_prop (get_prop err ''response'') ''body'') emptyArray) (\<lambda>b.
          Inr [b]))
      else
        andThen (get_prop res ''status'') (\<lambda>st.
        if st = JNum 200 then andThen (get_prop res ''body'') (\<lambda>b. Inr [JNull, b])
        else if st = JNum 404 then Inr [JNull, emptyArray]
        else andThen (get_prop res ''body'') (\<lambda>b. Inr [b, emptyArray])))"

text \<open>
  \<^verbatim>\<open>confirmPasswordReset(payload, cb)\<close>, lines 306 to 315. Reading \<^verbatim>\<open>payload.key\<close>
  throws when the payload is \<^verbatim>\<open>null\<close> or \<^verbatim>\<open>undefined\<close>; once it has been read the
  payload is neither, and the reads of \<^verbatim>\<open>email\<close> and \<^verbatim>\<open>password\<close> cannot throw.
\<close>

definition confirmPasswordReset :: "common \<Rightarrow> jsval \<Rightarrow> started" where
  "confirmPasswordReset c payload =
     (case get_prop payload ''key'' of
        Inl t \<Rightarrow> Throws t
      | Inr key \<Rightarrow>
          if isEmpty key \<or> isEmpty (prop_of payload ''email'')
               \<or> isEmpty (prop_of payload ''password'')
          then CallsBack [JObj [
                 (''status'', STATUS_BAD_REQUEST c),
                 (''body'', JStr ''payload requires object with `key`, `email`, `password`'')]]
          else Issues \<lparr>
                 via = Superagent,
                 http_method = ''PUT'',
                 url = makeAPIUrl c ''/confirm/accept/forgot'',
                 headers = [],
                 send = Some payload,
                 cache = None \<rparr>)"

text \<open>Lines 316 to 325.\<close>

definition confirmPasswordReset_end :: "jsval \<Rightarrow> jsval \<Rightarrow> thrown + jsval list" where
  "confirmPasswordReset_end err res =
     (if \<not> nullish err then
        andThen (or_default (and_prop (get_prop err ''response'') ''error'') (JStr [])) (\<lambda>m.
        andThen (set_prop err ''message'' m) (\<lambda>err'.
        Inr [err']))
      else
        andThen (get_prop res ''status'') (\<lambda>st.
        if st \<noteq> JNum 200 then
          andThen (get_prop res ''error'') (\<lambda>e.
          Inr [JObj [(''status'', st), (''message'', e)]])
        else Inr []))"

section \<open>The list of invites sent\<close>

text \<open>
  \<^verbatim>\<open>invitesSent\<close> (lines 156 to 163) hands a path and a table from status codes to
  results to \<^verbatim>\<open>common.doGetWithToken\<close>. An entry of the table is a function of the
  response or a constant.
\<close>

datatype handler = Fn "jsval \<Rightarrow> thrown + jsval" | Const jsval

text \<open>
  Modelled from the spec: \<^verbatim>\<open>common.doGetWithToken\<close> is not part of \<^verbatim>\<open>confirm.js\<close>.
  The spec describes it as a convenience wrapper that applies a declarative
  status-code-to-result mapping table, and says of the list-retrieval operations that
  the success path returns the parsed array, that a 404 response yields \<^verbatim>\<open>(null, [])\<close>
  and that any other non-200 yields \<^verbatim>\<open>(errorBody, [])\<close>: a status found in the table
  gives the callback no error and the entry's result, any other status the response
  body as the error and an empty list.
\<close>

definition doGetWithToken_end :: "(int \<times> handler) list \<Rightarrow> jsval \<Rightarrow> thrown + jsval list" where
  "doGetWithToken_end codes res =
     andThen (get_prop res ''status'') (\<lambda>st.
       case (case st of JNum n \<Rightarrow> map_of codes n | _ \<Rightarrow> None) of
         Some (Fn f) \<Rightarrow> andThen (f res) (\<lambda>v. Inr [JNull, v])
       | Some (Const v) \<Rightarrow> Inr [JNull, v]
       | None \<Rightarrow> andThen (get_prop res ''body'') (\<lambda>b. Inr [b, emptyArray]))"

text \<open>The table \<^verbatim>\<open>{ 200: function(res){ return res.body; }, 404: [] }\<close> of line 160.\<close>

definition invitesSent_codes :: "(int \<times> handler) list" where
  "invitesSent_codes = [(200, Fn (\<lambda>res. get_prop res ''body'')), (404, Const emptyArray)]"

definition invitesSent_end :: "jsval \<Rightarrow> thrown + jsval list" where
  "invitesSent_end res = doGetWithToken_end invitesSent_codes res"

section \<open>Vocabulary of the properties\<close>


text \<open>Objects, which can take a property; primitives cannot.\<close>

fun is_object :: "jsval \<Rightarrow> bool" where
  "is_object (JObj ps) = True"
| "is_object (JArr xs ps) = True"
| "is_object (JErr m ps) = True"
| "is_object _ = False"

text \<open>The value has a property of its own named \<open>k\<close>.\<close>

fun has_field :: "jsval \<Rightarrow> string \<Rightarrow> bool" where
  "has_field (JObj ps) k = (map_of ps k \<noteq> None)"
| "has_field (JArr xs ps) k = (map_of ps k \<noteq> None)"
| "has_field (JErr m ps) k = (k = ''message'' \<or> map_of ps k \<noteq> None)"
| "has_field _ k = False"

text \<open>
  The Error Descriptor as the spec words it,
  \<^verbatim>\<open>{status: integer|null, message: string, error?: string}\<close>: a \<open>status\<close> field
  holding an integer or \<^verbatim>\<open>null\<close>, a \<open>message\<close> field holding a string and, when there
  is an \<open>error\<close> field, a string in it.
\<close>

fun is_status :: "jsval \<Rightarrow> bool" where
  "is_status JNull = True"
| "is_status (JNum n) = True"
| "is_status _ = False"

definition error_descriptor :: "jsval \<Rightarrow> bool" where
  "error_descriptor d =
     (has_field d ''status'' \<and> is_status (prop_of d ''status'')
      \<and> has_field d ''message'' \<and> isString (prop_of d ''message'')
      \<and> (if has_field d ''error'' then isString (prop_of d ''error'') else True))"

text \<open>
  The part of the response attached to a transport error that a completion function
  reads: the property \<open>k\<close> of \<^verbatim>\<open>err.response\<close> when both are truthy.
\<close>

definition attached :: "jsval \<Rightarrow> string \<Rightarrow> jsval option" where
  "attached err k =
     (let r = prop_of err ''response''
      in if truthy r \<and> truthy (prop_of r k) then Some (prop_of r k) else None)"

text \<open>
  The property \<open>k\<close> of the body of that response, when the response, its body and the
  property are all truthy.
\<close>

definition attached_body :: "jsval \<Rightarrow> string \<Rightarrow> jsval option" where
  "attached_body err k =
     (case attached err ''body'' of
        None \<Rightarrow> None
      | Some b \<Rightarrow> if truthy (prop_of b k) then Some (prop_of b k) else None)"


text \<open>A collaborator to run the operations against.\<close>

definition example_common :: common where
  "example_common = \<lparr>
     makeAPIUrl = (\<lambda>path. ''https://api.example.org'' @ path),
     getToken = JStr ''token-1'',
     getSessionTrace = JStr ''trace-1'',
     STATUS_BAD_REQUEST = JNum 400,
     SESSION_TOKEN_HEADER = ''x-tidepool-session-token'' \<rparr>"

section \<open>Properties\<close>

subsection \<open>Auxiliary facts\<close>

lemma guard_rejects: "x = JStr [] \<or> \<not> isString x \<Longrightarrow> isEmpty x \<or> \<not> isString x"
  by (cases x) auto

lemma show_nat_400: "show_nat 400 = ''400''"
  by (simp add: show_nat.simps digit_def)

lemma get_prop_value: "\<not> nullish v \<Longrightarrow> get_prop v k = Inr (prop_of v k)"
  by (simp add: get_prop_def)

lemma truthy_not_nullish: "truthy v \<Longrightarrow> \<not> nullish v"
  by (cases v) auto

lemma is_object_not_nullish: "is_object v \<Longrightarrow> \<not> nullish v"
  by (cases v) auto

lemma andThen_Inr [simp]: "andThen (Inr v) f = f v"
  by (simp add: andThen_def)

lemma andThen_Inl [simp]: "andThen (Inl t) f = Inl t"
  by (simp add: andThen_def)

lemma attached_chain:
  "or_default (and_prop (Inr (prop_of err ''response'')) k) d
     = Inr (case attached err k of Some x \<Rightarrow> x | None \<Rightarrow> d)"
  by (auto simp add: or_default_def and_prop_def attached_def Let_def get_prop_value
      truthy_not_nullish)

lemma attached_body_chain:
  "or_default (and_prop (and_prop (Inr (prop_of err ''response'')) ''body'') k) d
     = Inr (case attached_body err k of Some x \<Rightarrow> x | None \<Rightarrow> d)"
  by (auto simp add: or_default_def and_prop_def attached_body_def attached_def Let_def
      get_prop_value truthy_not_nullish)

lemma set_prop_object:
  assumes "is_object v"
  shows "\<exists>e. set_prop v k x = Inr e \<and> is_object e
            \<and> (\<forall>k'. k' \<noteq> k \<longrightarrow> prop_of e k' = prop_of v k')"
  using assms by (cases v) (auto simp add: update_conv')

lemma attached_body_cong:
  "prop_of e ''response'' = prop_of v ''response'' \<Longrightarrow> attached_body e k = attached_body v k"
  by (simp add: attached_body_def attached_def)


subsection \<open>Responses with a status other than 200\<close>

text \<open>
  C1, as stated, fails. \<^verbatim>\<open>confirmPasswordReset\<close> does not read the body's \<^verbatim>\<open>reason\<close>:
  on a 500 response whose body has the reason \<^verbatim>\<open>expired\<close> the descriptor's message is
  the response's \<^verbatim>\<open>error\<close> property. And where the body has no \<^verbatim>\<open>reason\<close>,
  \<^verbatim>\<open>signupConfirm\<close> delivers the message \<^verbatim>\<open>undefined\<close>, not the empty string.
\<close>

theorem non200_message_counterexample:
  "confirmPasswordReset_end JNull
     (JObj [
        (''status'', JNum 500),
        (''body'', JObj [(''reason'', JStr ''expired'')]),
        (''error'', JErr (JStr ''cannot PUT /confirm/accept/forgot (500)'')
                      [(''status'', JNum 500)])])
   = Inr [JObj [
        (''status'', JNum 500),
        (''message'', JErr (JStr ''cannot PUT /confirm/accept/forgot (500)'')
                        [(''status'', JNum 500)])]]
   \<and> JErr (JStr ''cannot PUT /confirm/accept/forgot (500)'') [(''status'', JNum 500)]
       \<noteq> JStr ''expired''
   \<and> signupConfirm_end JNull (JObj [(''status'', JNum 500), (''body'', JObj [])])
       = Inr [JObj [(''status'', JNum 500), (''message'', JUndefined)]]
   \<and> JUndefined \<noteq> JStr []"
  by (simp add: confirmPasswordReset_end_def signupConfirm_end_def get_prop_def)

text \<open>
  C1, amended. When superagent reports no error and a response whose status is not 200
  and whose body is an object with a \<^verbatim>\<open>reason\<close>, \<^verbatim>\<open>signupConfirm\<close> and
  \<^verbatim>\<open>custodialSignupConfirm\<close> invoke the callback with a descriptor whose status is the
  response status and whose message is that reason, \<^verbatim>\<open>custodialSignupConfirm\<close> adding
  the body's \<^verbatim>\<open>error\<close>; \<^verbatim>\<open>confirmPasswordReset\<close> invokes it with a descriptor whose
  status is the response status and whose message is the response's \<^verbatim>\<open>error\<close> property.
\<close>

theorem non200_descriptor:
  assumes "nullish err" and "\<not> nullish res"
    and "prop_of res ''status'' \<noteq> JNum 200"
    and "prop_of res ''body'' = JObj ps"
    and "map_of ps ''reason'' = Some m"
  shows "signupConfirm_end err res
           = Inr [JObj [(''status'', prop_of res ''status''), (''message'', m)]]
       \<and> custodialSignupConfirm_end err res
           = Inr [JObj [
               (''status'', prop_of res ''status''),
               (''error'', prop_of (JObj ps) ''error''),
               (''message'', m)]]
       \<and> confirmPasswordReset_end err res
           = Inr [JObj [
               (''status'', prop_of res ''status''),
               (''message'', prop_of res ''error'')]]"
  using assms
  by (simp add: signupConfirm_end_def custodialSignupConfirm_end_def
      confirmPasswordReset_end_def get_prop_def)

theorem non200_descriptor_witness:
  "nullish JNull
   \<and> \<not> nullish (JObj [
        (''status'', JNum 409),
        (''body'', JObj [(''error'', JStr ''1001''), (''reason'', JStr ''expired'')]),
        (''error'', JBool False)])
   \<and> signupConfirm_end JNull (JObj [
        (''status'', JNum 409),
        (''body'', JObj [(''error'', JStr ''1001''), (''reason'', JStr ''expired'')]),
        (''error'', JBool False)])
       = Inr [JObj [(''status'', JNum 409), (''message'', JStr ''expired'')]]
   \<and> custodialSignupConfirm_end JNull (JObj [
        (''status'', JNum 409),
        (''body'', JObj [(''error'', JStr ''1001''), (''reason'', JStr ''expired'')]),
        (''error'', JBool False)])
       = Inr [JObj [(''status'', JNum 409), (''error'', JStr ''1001''),
                    (''message'', JStr ''expired'')]]
   \<and> confirmPasswordReset_end JNull (JObj [
        (''status'', JNum 409),
        (''body'', JObj [(''error'', JStr ''1001''), (''reason'', JStr ''expired'')]),
        (''error'', JBool False)])
       = Inr [JObj [(''status'', JNum 409), (''message'', JBool False)]]"
  using non200_descriptor [of JNull
      "JObj [
        (''status'', JNum 409),
        (''body'', JObj [(''error'', JStr ''1001''), (''reason'', JStr ''expired'')]),
        (''error'', JBool False)]"
      "[(''error'', JStr ''1001''), (''reason'', JStr ''expired'')]"
      "JStr ''expired''"]
  by simp

subsection \<open>The lists of invites\<close>

text \<open>
  C2, as stated, fails. superagent can deliver a response as its error: given an error
  of status 500 with the response attached, \<^verbatim>\<open>invitesReceived\<close> invokes the callback
  with one argument, the attached body, and no \<^verbatim>\<open>[]\<close> after it (line 183).
\<close>

theorem list_retrieval_counterexample:
  "invitesReceived_end
     (JErr (JStr ''Internal Server Error'') [
        (''status'', JNum 500),
        (''response'', JObj [
           (''status'', JNum 500),
           (''body'', JObj [(''reason'', JStr ''down'')])])])
     (JObj [(''status'', JNum 500), (''body'', JObj [(''reason'', JStr ''down'')])])
   = Inr [JObj [(''reason'', JStr ''down'')]]
   \<and> [JObj [(''reason'', JStr ''down'')]] \<noteq> [JObj [(''reason'', JStr ''down'')], emptyArray]"
  by (simp add: invitesReceived_end_def get_prop_def and_prop_def or_default_def)

text \<open>
  C2, amended. When the transport hands over a response and no error, \<^verbatim>\<open>invitesSent\<close>
  and \<^verbatim>\<open>invitesReceived\<close> answer a 404 with \<^verbatim>\<open>(null, [])\<close>, no error and an empty
  list, and any status other than 200 and 404 with the response body as the error and
  \<^verbatim>\<open>[]\<close> as the result. When the transport hands \<^verbatim>\<open>invitesReceived\<close> an error, the
  callback gets \<^verbatim>\<open>(null, [])\<close> if the error's status is 404, and otherwise a single
  argument: the body of the response attached to the error, or \<^verbatim>\<open>[]\<close> when there is
  none.
\<close>

theorem list_retrieval_statuses:
  "(nullish err \<and> \<not> nullish res \<and> prop_of res ''status'' = JNum 404 \<longrightarrow>
      invitesReceived_end err res = Inr [JNull, emptyArray]
      \<and> invitesSent_end res = Inr [JNull, emptyArray])
   \<and> (nullish err \<and> \<not> nullish res
        \<and> prop_of res ''status'' \<noteq> JNum 200 \<and> prop_of res ''status'' \<noteq> JNum 404 \<longrightarrow>
      invitesReceived_end err res = Inr [prop_of res ''body'', emptyArray]
      \<and> invitesSent_end res = Inr [prop_of res ''body'', emptyArray])
   \<and> (\<not> nullish err \<and> prop_of err ''status'' = JNum 404 \<longrightarrow>
      invitesReceived_end err res = Inr [JNull, emptyArray])
   \<and> (\<not> nullish err \<and> prop_of err ''status'' \<noteq> JNum 404 \<longrightarrow>
      invitesReceived_end err res
        = Inr [case attached err ''body'' of Some b \<Rightarrow> b | None \<Rightarrow> emptyArray])"
proof -
  have a: "nullish err \<and> \<not> nullish res \<and> prop_of res ''status'' = JNum 404 \<longrightarrow>
      invitesReceived_end err res = Inr [JNull, emptyArray]
      \<and> invitesSent_end res = Inr [JNull, emptyArray]"
    by (simp add: invitesReceived_end_def invitesSent_end_def doGetWithToken_end_def
        invitesSent_codes_def get_prop_def)
  have b: "nullish err \<and> \<not> nullish res
        \<and> prop_of res ''status'' \<noteq> JNum 200 \<and> prop_of res ''status'' \<noteq> JNum 404 \<longrightarrow>
      invitesReceived_end err res = Inr [prop_of res ''body'', emptyArray]
      \<and> invitesSent_end res = Inr [prop_of res ''body'', emptyArray]"
    by (auto simp add: invitesReceived_end_def invitesSent_end_def doGetWithToken_end_def
        invitesSent_codes_def get_prop_def split: jsval.splits)
  have c: "\<not> nullish err \<and> prop_of err ''status'' = JNum 404 \<longrightarrow>
      invitesReceived_end err res = Inr [JNull, emptyArray]"
    by (simp add: invitesReceived_end_def get_prop_value)
  have d: "\<not> nullish err \<and> prop_of err ''status'' \<noteq> JNum 404 \<longrightarrow>
      invitesReceived_end err res
        = Inr [case attached err ''body'' of Some b \<Rightarrow> b | None \<Rightarrow> emptyArray]"
    by (simp add: invitesReceived_end_def get_prop_value attached_chain)
  from a b c d show ?thesis by blast
qed

theorem list_retrieval_statuses_witness:
  "(nullish JNull
    \<and> \<not> nullish (JObj [(''status'', JNum 404), (''body'', JObj [])])
    \<and> prop_of (JObj [(''status'', JNum 404), (''body'', JObj [])]) ''status'' = JNum 404
    \<and> invitesReceived_end JNull (JObj [(''status'', JNum 404), (''body'', JObj [])])
        = Inr [JNull, emptyArray]
    \<and> invitesSent_end (JObj [(''status'', JNum 404), (''body'', JObj [])])
        = Inr [JNull, emptyArray])
   \<and> (\<not> nullish (JObj [(''status'', JNum 500), (''body'', JObj [(''reason'', JStr ''down'')])])
    \<and> prop_of (JObj [(''status'', JNum 500), (''body'', JObj [(''reason'', JStr ''down'')])])
         ''status'' \<noteq> JNum 200
    \<and> prop_of (JObj [(''status'', JNum 500), (''body'', JObj [(''reason'', JStr ''down'')])])
         ''status'' \<noteq> JNum 404
    \<and> invitesReceived_end JNull
         (JObj [(''status'', JNum 500), (''body'', JObj [(''reason'', JStr ''down'')])])
        = Inr [JObj [(''reason'', JStr ''down'')], emptyArray]
    \<and> invitesSent_end
         (JObj [(''status'', JNum 500), (''body'', JObj [(''reason'', JStr ''down'')])])
        = Inr [JObj [(''reason'', JStr ''down'')], emptyArray])
   \<and> (\<not> nullish (JErr (JStr ''Not Found'') [(''status'', JNum 404)])
    \<and> prop_of (JErr (JStr ''Not Found'') [(''status'', JNum 404)]) ''status'' = JNum 404
    \<and> invitesReceived_end (JErr (JStr ''Not Found'') [(''status'', JNum 404)]) JUndefined
        = Inr [JNull, emptyArray])
   \<and> (\<not> nullish (JErr (JStr ''Internal Server Error'') [
          (''status'', JNum 500),
          (''response'', JObj [
             (''status'', JNum 500),
             (''body'', JObj [(''reason'', JStr ''down'')])])])
    \<and> prop_of (JErr (JStr ''Internal Server Error'') [
          (''status'', JNum 500),
          (''response'', JObj [
             (''status'', JNum 500),
             (''body'', JObj [(''reason'', JStr ''down'')])])]) ''status'' \<noteq> JNum 404
    \<and> invitesReceived_end
         (JErr (JStr ''Internal Server Error'') [
            (''status'', JNum 500),
            (''response'', JObj [
               (''status'', JNum 500),
               (''body'', JObj [(''reason'', JStr ''down'')])])])
         JUndefined
        = Inr [JObj [(''reason'', JStr ''down'')]])
   \<and> (\<not> nullish (JErr (JStr ''Network unreachable'') [])
    \<and> prop_of (JErr (JStr ''Network unreachable'') []) ''status'' \<noteq> JNum 404
    \<and> invitesReceived_end (JErr (JStr ''Network unreachable'') []) JUndefined
        = Inr [emptyArray])"
  using list_retrieval_statuses [of JNull "JObj [(''status'', JNum 404), (''body'', JObj [])]"]
    list_retrieval_statuses [of JNull
      "JObj [(''status'', JNum 500), (''body'', JObj [(''reason'', JStr ''down'')])]"]
    list_retrieval_statuses [of "JErr (JStr ''Not Found'') [(''status'', JNum 404)]" JUndefined]
    list_retrieval_statuses [of
      "JErr (JStr ''Internal Server Error'') [
          (''status'', JNum 500),
          (''response'', JObj [
             (''status'', JNum 500),
             (''body'', JObj [(''reason'', JStr ''down'')])])]" JUndefined]
    list_retrieval_statuses [of "JErr (JStr ''Network unreachable'') []" JUndefined]
  by (simp add: attached_def)

subsection \<open>The guard on the identifier\<close>

text \<open>
  C3. A call of \<^verbatim>\<open>signupStart\<close>, \<^verbatim>\<open>signupResend\<close> or \<^verbatim>\<open>requestPasswordReset\<close> whose
  identifier or email argument is the empty string or is not a string throws
  synchronously, whatever the other arguments are, and so issues no request.
\<close>

theorem identifier_guard_throws:
  assumes "x = JStr [] \<or> \<not> isString x"
  shows "signupStart c x lang = Throws (Raised (JErr (JStr ''Invalid parameter invitedId'') []))
       \<and> signupResend c x lang = Throws (Raised (JErr (JStr ''Invalid parameter email'') []))
       \<and> requestPasswordReset c x info lang
           = Throws (Raised (JErr (JStr ''Invalid parameter email'') []))"
  using guard_rejects [OF assms]
  by (simp add: signupStart_def signupResend_def requestPasswordReset_def)

theorem identifier_guard_throws_witness:
  "((JNum 42 = JStr [] \<or> \<not> isString (JNum 42))
    \<and> signupStart example_common (JNum 42) (JStr ''fr'')
         = Throws (Raised (JErr (JStr ''Invalid parameter invitedId'') []))
    \<and> signupResend example_common (JNum 42) (JStr ''fr'')
         = Throws (Raised (JErr (JStr ''Invalid parameter email'') []))
    \<and> requestPasswordReset example_common (JNum 42) (JBool False) (JStr ''fr'')
         = Throws (Raised (JErr (JStr ''Invalid parameter email'') [])))
   \<and> ((JStr [] = JStr [] \<or> \<not> isString (JStr []))
    \<and> signupStart example_common (JStr []) JUndefined
         = Throws (Raised (JErr (JStr ''Invalid parameter invitedId'') []))
    \<and> signupResend example_common (JStr []) JUndefined
         = Throws (Raised (JErr (JStr ''Invalid parameter email'') []))
    \<and> requestPasswordReset example_common (JStr []) JUndefined JUndefined
         = Throws (Raised (JErr (JStr ''Invalid parameter email'') [])))"
  using identifier_guard_throws [of "JNum 42" example_common "JStr ''fr''" "JBool False"]
    identifier_guard_throws [of "JStr []" example_common JUndefined JUndefined]
  by simp

subsection \<open>The fail-fast check of the reset payload\<close>

text \<open>
  C4. For a payload whose \<^verbatim>\<open>key\<close>, \<^verbatim>\<open>email\<close> or \<^verbatim>\<open>password\<close> is empty,
  \<^verbatim>\<open>confirmPasswordReset\<close> invokes the callback at once with an error whose status is
  \<^verbatim>\<open>common.STATUS_BAD_REQUEST\<close>, and issues no request.
\<close>

theorem confirmPasswordReset_fails_fast:
  assumes "\<not> nullish payload"
    and "isEmpty (prop_of payload ''key'') \<or> isEmpty (prop_of payload ''email'')
         \<or> isEmpty (prop_of payload ''password'')"
  shows "confirmPasswordReset c payload
           = CallsBack [JObj [
               (''status'', STATUS_BAD_REQUEST c),
               (''body'', JStr ''payload requires object with `key`, `email`, `password`'')]]
       \<and> (\<forall>rq. confirmPasswordReset c payload \<noteq> Issues rq)"
  using assms by (auto simp add: confirmPasswordReset_def get_prop_def)

theorem confirmPasswordReset_fails_fast_witness:
  "\<not> nullish (JObj [(''key'', JStr ''k1''), (''email'', JStr []), (''password'', JStr ''pw'')])
   \<and> (isEmpty (prop_of (JObj [(''key'', JStr ''k1''), (''email'', JStr []), (''password'', JStr ''pw'')]) ''key'')
      \<or> isEmpty (prop_of (JObj [(''key'', JStr ''k1''), (''email'', JStr []), (''password'', JStr ''pw'')]) ''email'')
      \<or> isEmpty (prop_of (JObj [(''key'', JStr ''k1''), (''email'', JStr []), (''password'', JStr ''pw'')]) ''password''))
   \<and> confirmPasswordReset example_common
         (JObj [(''key'', JStr ''k1''), (''email'', JStr []), (''password'', JStr ''pw'')])
       = CallsBack [JObj [
           (''status'', JNum 400),
           (''body'', JStr ''payload requires object with `key`, `email`, `password`'')]]"
  using confirmPasswordReset_fails_fast [of
      "JObj [(''key'', JStr ''k1''), (''email'', JStr []), (''password'', JStr ''pw'')]"
      example_common]
  by (simp add: example_common_def)

subsection \<open>Transport errors\<close>

text \<open>
  C5, as stated, fails. Given a transport error whose attached response body has the
  reason \<^verbatim>\<open>expired\<close>, \<^verbatim>\<open>confirmPasswordReset\<close> sets the message to the empty string:
  it reads \<^verbatim>\<open>err.response.error\<close>, which is not there, and not the body's reason.
  Given the same error, \<^verbatim>\<open>invitesReceived\<close> hands the callback the attached body, not
  the error object.
\<close>

theorem transport_error_counterexample:
  "confirmPasswordReset_end
     (JErr (JStr ''Unauthorized'') [
        (''status'', JNum 401),
        (''response'', JObj [
           (''status'', JNum 401),
           (''body'', JObj [(''reason'', JStr ''expired'')])])])
     JUndefined
   = Inr [JErr (JStr []) [
        (''status'', JNum 401),
        (''response'', JObj [
           (''status'', JNum 401),
           (''body'', JObj [(''reason'', JStr ''expired'')])])]]
   \<and> JStr [] \<noteq> JStr ''expired''
   \<and> invitesReceived_end
       (JErr (JStr ''Unauthorized'') [
          (''status'', JNum 401),
          (''response'', JObj [
             (''status'', JNum 401),
             (''body'', JObj [(''reason'', JStr ''expired'')])])])
       JUndefined
     = Inr [JObj [(''reason'', JStr ''expired'')]]"
  by (simp add: confirmPasswordReset_end_def invitesReceived_end_def get_prop_def
      and_prop_def or_default_def)

text \<open>
  C5, amended. Given a transport error object, \<^verbatim>\<open>signupConfirm\<close> and
  \<^verbatim>\<open>custodialSignupConfirm\<close> hand that object to the callback with its
  \<^verbatim>\<open>message\<close> set to the \<^verbatim>\<open>reason\<close> of the attached response body when the response,
  its body and the reason are all truthy, and to the empty string otherwise
  (\<^verbatim>\<open>custodialSignupConfirm\<close> sets \<^verbatim>\<open>error\<close> from the body's \<^verbatim>\<open>error\<close> in the same
  way first). \<^verbatim>\<open>confirmPasswordReset\<close> hands the object over with its message set to
  the attached response's own \<^verbatim>\<open>error\<close> property when truthy, else the empty string.
  \<^verbatim>\<open>invitesReceived\<close> does not hand the error object over: it answers
  \<^verbatim>\<open>(null, [])\<close> when the error's status is 404, and otherwise passes the attached
  response body, or \<^verbatim>\<open>[]\<close> when there is none, as the only argument.
\<close>

theorem transport_error_message:
  assumes "is_object err"
  shows "(\<exists>e. set_prop err ''message''
                 (case attached_body err ''reason'' of Some m \<Rightarrow> m | None \<Rightarrow> JStr []) = Inr e
            \<and> signupConfirm_end err res = Inr [e])
       \<and> (\<exists>e e'. set_prop err ''error''
                 (case attached_body err ''error'' of Some x \<Rightarrow> x | None \<Rightarrow> JStr []) = Inr e
            \<and> set_prop e ''message''
                 (case attached_body err ''reason'' of Some m \<Rightarrow> m | None \<Rightarrow> JStr []) = Inr e'
            \<and> custodialSignupConfirm_end err res = Inr [e'])
       \<and> (\<exists>e. set_prop err ''message''
                 (case attached err ''error'' of Some m \<Rightarrow> m | None \<Rightarrow> JStr []) = Inr e
            \<and> confirmPasswordReset_end err res = Inr [e])
       \<and> invitesReceived_end err res
           = (if prop_of err ''status'' = JNum 404 then Inr [JNull, emptyArray]
              else Inr [case attached err ''body'' of Some b \<Rightarrow> b | None \<Rightarrow> emptyArray])"
proof -
  from assms have nn: "\<not> nullish err" by (rule is_object_not_nullish)
  let ?m = "case attached_body err ''reason'' of Some m \<Rightarrow> m | None \<Rightarrow> JStr []"
  let ?x = "case attached_body err ''error'' of Some x \<Rightarrow> x | None \<Rightarrow> JStr []"
  let ?pm = "case attached err ''error'' of Some m \<Rightarrow> m | None \<Rightarrow> JStr []"
  from set_prop_object [OF assms, of "''message''" ?m]
  obtain e1 where e1: "set_prop err ''message'' ?m = Inr e1" by blast
  have c1: "signupConfirm_end err res = Inr [e1]"
    using nn e1 by (simp add: signupConfirm_end_def get_prop_value attached_body_chain)
  from set_prop_object [OF assms, of "''error''" ?x]
  obtain e2 where e2: "set_prop err ''error'' ?x = Inr e2" and o2: "is_object e2"
    and same: "prop_of e2 ''response'' = prop_of err ''response''" by auto
  from set_prop_object [OF o2, of "''message''" ?m]
  obtain e3 where e3: "set_prop e2 ''message'' ?m = Inr e3" by blast
  have nn2: "\<not> nullish e2" using o2 by (rule is_object_not_nullish)
  have c2: "custodialSignupConfirm_end err res = Inr [e3]"
    using nn nn2 e2 e3 attached_body_cong [OF same]
    by (simp add: custodialSignupConfirm_end_def get_prop_value attached_body_chain)
  from set_prop_object [OF assms, of "''message''" ?pm]
  obtain e4 where e4: "set_prop err ''message'' ?pm = Inr e4" by blast
  have c3: "confirmPasswordReset_end err res = Inr [e4]"
    using nn e4 by (simp add: confirmPasswordReset_end_def get_prop_value attached_chain)
  have c4: "invitesReceived_end err res
           = (if prop_of err ''status'' = JNum 404 then Inr [JNull, emptyArray]
              else Inr [case attached err ''body'' of Some b \<Rightarrow> b | None \<Rightarrow> emptyArray])"
    using nn by (simp add: invitesReceived_end_def attached_chain get_prop_value)
  from e1 c1 e2 e3 c2 e4 c3 c4 show ?thesis by blast
qed

theorem transport_error_message_witness:
  "is_object (JErr (JStr ''Unauthorized'') [
      (''status'', JNum 401),
      (''response'', JObj [
         (''status'', JNum 401),
         (''body'', JObj [(''error'', JStr ''unauthorized''), (''reason'', JStr ''expired'')])])])
   \<and> signupConfirm_end
        (JErr (JStr ''Unauthorized'') [
          (''status'', JNum 401),
          (''response'', JObj [
             (''status'', JNum 401),
             (''body'', JObj [(''error'', JStr ''unauthorized''), (''reason'', JStr ''expired'')])])])
        JUndefined
       = Inr [JErr (JStr ''expired'') [
          (''status'', JNum 401),
          (''response'', JObj [
             (''status'', JNum 401),
             (''body'', JObj [(''error'', JStr ''unauthorized''), (''reason'', JStr ''expired'')])])]]
   \<and> custodialSignupConfirm_end
        (JErr (JStr ''Unauthorized'') [
          (''status'', JNum 401),
          (''response'', JObj [
             (''status'', JNum 401),
             (''body'', JObj [(''error'', JStr ''unauthorized''), (''reason'', JStr ''expired'')])])])
        JUndefined
       = Inr [JErr (JStr ''expired'') [
          (''status'', JNum 401),
          (''response'', JObj [
             (''status'', JNum 401),
             (''body'', JObj [(''error'', JStr ''unauthorized''), (''reason'', JStr ''expired'')])]),
          (''error'', JStr ''unauthorized'')]]
   \<and> confirmPasswordReset_end
        (JErr (JStr ''Unauthorized'') [
          (''status'', JNum 401),
          (''response'', JObj [
             (''status'', JNum 401),
             (''body'', JObj [(''error'', JStr ''unauthorized''), (''reason'', JStr ''expired'')])])])
        JUndefined
       = Inr [JErr (JStr []) [
          (''status'', JNum 401),
          (''response'', JObj [
             (''status'', JNum 401),
             (''body'', JObj [(''error'', JStr ''unauthorized''), (''reason'', JStr ''expired'')])])]]
   \<and> invitesReceived_end
        (JErr (JStr ''Unauthorized'') [
          (''status'', JNum 401),
          (''response'', JObj [
             (''status'', JNum 401),
             (''body'', JObj [(''error'', JStr ''unauthorized''), (''reason'', JStr ''expired'')])])])
        JUndefined
       = Inr [JObj [(''error'', JStr ''unauthorized''), (''reason'', JStr ''expired'')]]"
  using transport_error_message [of
      "JErr (JStr ''Unauthorized'') [
          (''status'', JNum 401),
          (''response'', JObj [
             (''status'', JNum 401),
             (''body'', JObj [(''error'', JStr ''unauthorized''), (''reason'', JStr ''expired'')])])]"
      JUndefined]
  by (simp add: attached_def attached_body_def)

subsection \<open>Which statuses count as success\<close>




subsection \<open>The scenario of signupStart\<close>

text \<open>
  C7, as stated, fails: on a 204 response the callback is not called with no arguments,
  it is called with one argument, \<^verbatim>\<open>null\<close> (line 48).
\<close>

theorem signupStart_204_counterexample:
  "signupStart_settle (Resolves \<lparr>ok = True, status = 204, text_result = Inr []\<rparr>) = [JNull]
   \<and> signupStart_settle (Resolves \<lparr>ok = True, status = 204, text_result = Inr []\<rparr>) \<noteq> []"
  by (simp add: signupStart_settle_def)

text \<open>
  C7, amended. \<^verbatim>\<open>signupStart("user123", "fr", cb)\<close> issues a POST to
  \<^verbatim>\<open>/confirm/send/signup/user123\<close> with the header \<^verbatim>\<open>x-tidepool-language\<close> set to
  \<^verbatim>\<open>fr\<close>; on a 204 response the callback is called with the single argument
  \<^verbatim>\<open>null\<close>; on a 400 response it is called with an Error whose message is
  \<^verbatim>\<open>Invalid HTTP response 400\<close>.
\<close>

theorem signupStart_scenario:
  "signupStart c (JStr ''user123'') (JStr ''fr'')
     = Issues \<lparr>
         via = Fetch,
         http_method = ''POST'',
         url = makeAPIUrl c ''/confirm/send/signup/user123'',
         headers = [
           (''x-tidepool-session-token'', getToken c),
           (''x-tidepool-trace-session'', getSessionTrace c),
           (''x-tidepool-language'', JStr ''fr'')],
         send = None,
         cache = Some ''no-cache'' \<rparr>
   \<and> signupStart_settle (Resolves \<lparr>ok = True, status = 204, text_result = t\<rparr>) = [JNull]
   \<and> signupStart_settle (Resolves \<lparr>ok = False, status = 400, text_result = t\<rparr>)
       = [JErr (JStr ''Invalid HTTP response 400'') []]"
  by (simp add: signupStart_def signupStart_settle_def default_to_def show_nat_400)

subsection \<open>The custom headers\<close>

text \<open>
  C8, as stated, fails: the request of \<^verbatim>\<open>signupResend\<close> has no
  \<^verbatim>\<open>x-tidepool-session-token\<close> header.
\<close>

theorem session_token_header_counterexample:
  "signupResend example_common (JStr ''jane@example.org'') (JStr ''fr'')
     = Issues \<lparr>
         via = Fetch,
         http_method = ''POST'',
         url = ''https://api.example.org/confirm/resend/signup/jane@example.org'',
         headers = [
           (''x-tidepool-trace-session'', JStr ''trace-1''),
           (''x-tidepool-language'', JStr ''fr'')],
         send = None,
         cache = Some ''no-cache'' \<rparr>
   \<and> map_of [(''x-tidepool-trace-session'', JStr ''trace-1''),
              (''x-tidepool-language'', JStr ''fr'')] ''x-tidepool-session-token'' = None"
  by (simp add: signupResend_def example_common_def default_to_def)

text \<open>
  C8, amended. \<^verbatim>\<open>signupStart\<close> attaches the three headers
  \<^verbatim>\<open>x-tidepool-session-token\<close>, \<^verbatim>\<open>x-tidepool-trace-session\<close> and
  \<^verbatim>\<open>x-tidepool-language\<close>, carrying the session token, the trace identifier and the
  language tag; \<^verbatim>\<open>signupResend\<close> and \<^verbatim>\<open>requestPasswordReset\<close> attach the last two
  only.
\<close>

theorem custom_headers:
  assumes "s \<noteq> []"
  shows "(\<exists>rq. signupStart c (JStr s) lang = Issues rq
            \<and> headers rq = [
                 (''x-tidepool-session-token'', getToken c),
                 (''x-tidepool-trace-session'', getSessionTrace c),
                 (''x-tidepool-language'', default_to (JStr ''en'') lang)])
       \<and> (\<exists>rq. signupResend c (JStr s) lang = Issues rq
            \<and> headers rq = [
                 (''x-tidepool-trace-session'', getSessionTrace c),
                 (''x-tidepool-language'', default_to (JStr ''en'') lang)])
       \<and> (\<exists>rq. requestPasswordReset c (JStr s) info lang = Issues rq
            \<and> headers rq = [
                 (''x-tidepool-trace-session'', getSessionTrace c),
                 (''x-tidepool-language'', default_to (JStr ''en'') lang)])"
  using assms
  by (simp add: signupStart_def signupResend_def requestPasswordReset_def)

theorem custom_headers_witness:
  "''user123'' \<noteq> []
   \<and> (\<exists>rq. signupStart example_common (JStr ''user123'') (JStr ''fr'') = Issues rq
        \<and> headers rq = [
             (''x-tidepool-session-token'', JStr ''token-1''),
             (''x-tidepool-trace-session'', JStr ''trace-1''),
             (''x-tidepool-language'', JStr ''fr'')])
   \<and> (\<exists>rq. signupResend example_common (JStr ''user123'') (JStr ''fr'') = Issues rq
        \<and> headers rq = [
             (''x-tidepool-trace-session'', JStr ''trace-1''),
             (''x-tidepool-language'', JStr ''fr'')])
   \<and> (\<exists>rq. requestPasswordReset example_common (JStr ''user123'') JUndefined (JStr ''fr'')
               = Issues rq
        \<and> headers rq = [
             (''x-tidepool-trace-session'', JStr ''trace-1''),
             (''x-tidepool-language'', JStr ''fr'')])"
  using custom_headers [of "''user123''" example_common "JStr ''fr''" JUndefined]
  by (simp add: example_common_def default_to_def)

subsection \<open>The shape of the errors delivered\<close>

text \<open>
  C9, as stated, fails: the error \<^verbatim>\<open>signupStart\<close> delivers on a 400 response is an
  Error with a message and no \<^verbatim>\<open>status\<close> field, and the error
  \<^verbatim>\<open>confirmPasswordReset\<close> delivers from its fail-fast check has a \<^verbatim>\<open>status\<close> and a
  \<^verbatim>\<open>body\<close> and no \<^verbatim>\<open>message\<close> field.
\<close>

theorem error_shape_counterexample:
  "signupStart_settle (Resolves \<lparr>ok = False, status = 400, text_result = Inr []\<rparr>)
     = [JErr (JStr ''Invalid HTTP response 400'') []]
   \<and> \<not> has_field (JErr (JStr ''Invalid HTTP response 400'') []) ''status''
   \<and> \<not> error_descriptor (JErr (JStr ''Invalid HTTP response 400'') [])
   \<and> confirmPasswordReset example_common (JObj [])
     = CallsBack [JObj [
         (''status'', JNum 400),
         (''body'', JStr ''payload requires object with `key`, `email`, `password`'')]]
   \<and> \<not> has_field (JObj [
         (''status'', JNum 400),
         (''body'', JStr ''payload requires object with `key`, `email`, `password`'')])
        ''message''
   \<and> \<not> error_descriptor (JObj [
         (''status'', JNum 400),
         (''body'', JStr ''payload requires object with `key`, `email`, `password`'')])"
  by (simp add: signupStart_settle_def show_nat_400 error_descriptor_def
      confirmPasswordReset_def get_prop_def example_common_def)

text \<open>
  C9, amended. The errors delivered on an application-level failure by the operations
  that complete in \<^verbatim>\<open>confirm.js\<close> itself have one shape per operation. When
  \<^verbatim>\<open>response.ok\<close> is false and \<^verbatim>\<open>response.text()\<close> resolves, \<^verbatim>\<open>signupResend\<close> and
  \<^verbatim>\<open>requestPasswordReset\<close> deliver the Error Descriptor \<^verbatim>\<open>{status, message}\<close> holding the
  response status and the response text. When superagent reports no error and a
  response whose status is not 200, \<^verbatim>\<open>confirmPasswordReset\<close> delivers
  \<^verbatim>\<open>{status, message}\<close> holding the response status and the response's \<^verbatim>\<open>error\<close>
  property; \<^verbatim>\<open>signupConfirm\<close> and \<^verbatim>\<open>custodialSignupConfirm\<close>, given a body that is an
  object with a \<^verbatim>\<open>reason\<close>, deliver \<^verbatim>\<open>{status, message}\<close> and
  \<^verbatim>\<open>{status, error, message}\<close> holding the response status, that reason and the body's
  \<^verbatim>\<open>error\<close>; and \<^verbatim>\<open>invitesReceived\<close>, when the status is not 404 either, delivers the
  response body itself. The fail-fast check of \<^verbatim>\<open>confirmPasswordReset\<close> delivers
  \<^verbatim>\<open>{status, body}\<close> holding \<^verbatim>\<open>common.STATUS_BAD_REQUEST\<close> and a fixed text, with no
  \<^verbatim>\<open>message\<close> field. When \<^verbatim>\<open>response.ok\<close> is false, \<^verbatim>\<open>signupStart\<close> delivers an Error
  whose message is \<^verbatim>\<open>Invalid HTTP response\<close> followed by the status, with no
  \<^verbatim>\<open>status\<close> field.
\<close>

theorem delivered_error_shapes:
  "(\<not> ok r \<and> text_result r = Inr t \<longrightarrow>
      signupResend_settle (Resolves r)
        = [JObj [(''status'', JNum (int (status r))), (''message'', JStr t)]]
      \<and> requestPasswordReset_settle (Resolves r)
        = [JObj [(''status'', JNum (int (status r))), (''message'', JStr t)]]
      \<and> error_descriptor (JObj [(''status'', JNum (int (status r))), (''message'', JStr t)]))
   \<and> (nullish err \<and> \<not> nullish res \<and> prop_of res ''status'' \<noteq> JNum 200 \<longrightarrow>
        confirmPasswordReset_end err res
          = Inr [JObj [(''status'', prop_of res ''status''),
                       (''message'', prop_of res ''error'')]])
   \<and> (nullish err \<and> \<not> nullish res \<and> prop_of res ''status'' \<noteq> JNum 200
        \<and> prop_of res ''body'' = JObj ps \<and> map_of ps ''reason'' = Some m \<longrightarrow>
        signupConfirm_end err res
          = Inr [JObj [(''status'', prop_of res ''status''), (''message'', m)]]
        \<and> custodialSignupConfirm_end err res
          = Inr [JObj [(''status'', prop_of res ''status''),
                       (''error'', prop_of (JObj ps) ''error''),
                       (''message'', m)]])
   \<and> (nullish err \<and> \<not> nullish res \<and> prop_of res ''status'' \<noteq> JNum 200
        \<and> prop_of res ''status'' \<noteq> JNum 404 \<longrightarrow>
        invitesReceived_end err res = Inr [prop_of res ''body'', emptyArray])
   \<and> (\<not> nullish payload
        \<and> (isEmpty (prop_of payload ''key'') \<or> isEmpty (prop_of payload ''email'')
           \<or> isEmpty (prop_of payload ''password'')) \<longrightarrow>
        confirmPasswordReset c payload
          = CallsBack [JObj [
              (''status'', STATUS_BAD_REQUEST c),
              (''body'', JStr ''payload requires object with `key`, `email`, `password`'')]]
        \<and> \<not> has_field (JObj [
              (''status'', STATUS_BAD_REQUEST c),
              (''body'', JStr ''payload requires object with `key`, `email`, `password`'')])
             ''message'')
   \<and> (\<not> ok r \<longrightarrow>
        signupStart_settle (Resolves r)
          = [JErr (JStr (''Invalid HTTP response '' @ show_nat (status r))) []]
        \<and> \<not> has_field (JErr (JStr (''Invalid HTTP response '' @ show_nat (status r))) [])
             ''status'')"
proof -
  have a: "\<not> ok r \<and> text_result r = Inr t \<longrightarrow>
      signupResend_settle (Resolves r)
        = [JObj [(''status'', JNum (int (status r))), (''message'', JStr t)]]
      \<and> requestPasswordReset_settle (Resolves r)
        = [JObj [(''status'', JNum (int (status r))), (''message'', JStr t)]]"
    by (simp add: signupResend_settle_def requestPasswordReset_settle_def)
  have a': "error_descriptor (JObj [(''status'', JNum (int (status r))), (''message'', JStr t)])"
    by (simp add: error_descriptor_def)
  have b: "nullish err \<and> \<not> nullish res \<and> prop_of res ''status'' \<noteq> JNum 200 \<longrightarrow>
        confirmPasswordReset_end err res
          = Inr [JObj [(''status'', prop_of res ''status''),
                       (''message'', prop_of res ''error'')]]"
    by (simp add: confirmPasswordReset_end_def get_prop_def)
  have c: "nullish err \<and> \<not> nullish res \<and> prop_of res ''status'' \<noteq> JNum 200
        \<and> prop_of res ''body'' = JObj ps \<and> map_of ps ''reason'' = Some m \<longrightarrow>
        signupConfirm_end err res
          = Inr [JObj [(''status'', prop_of res ''status''), (''message'', m)]]
        \<and> custodialSignupConfirm_end err res
          = Inr [JObj [(''status'', prop_of res ''status''),
                       (''error'', prop_of (JObj ps) ''error''),
                       (''message'', m)]]"
    by (simp add: signupConfirm_end_def custodialSignupConfirm_end_def get_prop_def)
  have c': "nullish err \<and> \<not> nullish res \<and> prop_of res ''status'' \<noteq> JNum 200
        \<and> prop_of res ''status'' \<noteq> JNum 404 \<longrightarrow>
        invitesReceived_end err res = Inr [prop_of res ''body'', emptyArray]"
    by (simp add: invitesReceived_end_def get_prop_def)
  have d: "\<not> nullish payload
        \<and> (isEmpty (prop_of payload ''key'') \<or> isEmpty (prop_of payload ''email'')
           \<or> isEmpty (prop_of payload ''password'')) \<longrightarrow>
        confirmPasswordReset c payload
          = CallsBack [JObj [
              (''status'', STATUS_BAD_REQUEST c),
              (''body'', JStr ''payload requires object with `key`, `email`, `password`'')]]"
    by (auto simp add: confirmPasswordReset_def get_prop_def)
  have d': "\<not> has_field (JObj [
              (''status'', STATUS_BAD_REQUEST c),
              (''body'', JStr ''payload requires object with `key`, `email`, `password`'')])
             ''message''"
    by simp
  have e: "\<not> ok r \<longrightarrow>
        signupStart_settle (Resolves r)
          = [JErr (JStr (''Invalid HTTP response '' @ show_nat (status r))) []]"
    by (simp add: signupStart_settle_def)
  have e': "\<not> has_field (JErr (JStr (''Invalid HTTP response '' @ show_nat (status r))) [])
             ''status''"
    by simp
  from a a' b c c' d d' e e' show ?thesis by blast
qed

theorem delivered_error_shapes_witness:
  "\<not> ok \<lparr>ok = False, status = 400, text_result = Inr ''bad''\<rparr>
   \<and> signupResend_settle (Resolves \<lparr>ok = False, status = 400, text_result = Inr ''bad''\<rparr>)
       = [JObj [(''status'', JNum 400), (''message'', JStr ''bad'')]]
   \<and> requestPasswordReset_settle
        (Resolves \<lparr>ok = False, status = 400, text_result = Inr ''bad''\<rparr>)
       = [JObj [(''status'', JNum 400), (''message'', JStr ''bad'')]]
   \<and> error_descriptor (JObj [(''status'', JNum 400), (''message'', JStr ''bad'')])
   \<and> signupStart_settle (Resolves \<lparr>ok = False, status = 400, text_result = Inr ''bad''\<rparr>)
       = [JErr (JStr ''Invalid HTTP response 400'') []]
   \<and> nullish JNull
   \<and> \<not> nullish (JObj [
        (''status'', JNum 409),
        (''body'', JObj [(''error'', JStr ''1001''), (''reason'', JStr ''expired'')]),
        (''error'', JBool False)])
   \<and> map_of [(''error'', JStr ''1001''), (''reason'', JStr ''expired'')] ''reason''
       = Some (JStr ''expired'')
   \<and> confirmPasswordReset_end JNull (JObj [
        (''status'', JNum 409),
        (''body'', JObj [(''error'', JStr ''1001''), (''reason'', JStr ''expired'')]),
        (''error'', JBool False)])
       = Inr [JObj [(''status'', JNum 409), (''message'', JBool False)]]
   \<and> signupConfirm_end JNull (JObj [
        (''status'', JNum 409),
        (''body'', JObj [(''error'', JStr ''1001''), (''reason'', JStr ''expired'')]),
        (''error'', JBool False)])
       = Inr [JObj [(''status'', JNum 409), (''message'', JStr ''expired'')]]
   \<and> custodialSignupConfirm_end JNull (JObj [
        (''status'', JNum 409),
        (''body'', JObj [(''error'', JStr ''1001''), (''reason'', JStr ''expired'')]),
        (''error'', JBool False)])
       = Inr [JObj [(''status'', JNum 409), (''error'', JStr ''1001''),
                    (''message'', JStr ''expired'')]]
   \<and> invitesReceived_end JNull (JObj [
        (''status'', JNum 409),
        (''body'', JObj [(''error'', JStr ''1001''), (''reason'', JStr ''expired'')]),
        (''error'', JBool False)])
       = Inr [JObj [(''error'', JStr ''1001''), (''reason'', JStr ''expired'')], emptyArray]
   \<and> \<not> nullish (JObj [(''key'', JStr ''k1'')])
   \<and> isEmpty (prop_of (JObj [(''key'', JStr ''k1'')]) ''email'')
   \<and> confirmPasswordReset example_common (JObj [(''key'', JStr ''k1'')])
       = CallsBack [JObj [
           (''status'', JNum 400),
           (''body'', JStr ''payload requires object with `key`, `email`, `password`'')]]"
  using delivered_error_shapes [of
      "\<lparr>ok = False, status = 400, text_result = Inr ''bad''\<rparr>" "''bad''" JNull
      "JObj [
        (''status'', JNum 409),
        (''body'', JObj [(''error'', JStr ''1001''), (''reason'', JStr ''expired'')]),
        (''error'', JBool False)]"
      "[(''error'', JStr ''1001''), (''reason'', JStr ''expired'')]"
      "JStr ''expired''"
      "JObj [(''key'', JStr ''k1'')]" example_common]
  by (simp add: show_nat_400 example_common_def)

subsection \<open>The info flag of requestPasswordReset\<close>

text \<open>
  C10. With \<^verbatim>\<open>info\<close> true, or left out, \<^verbatim>\<open>requestPasswordReset\<close> issues its POST to
  \<^verbatim>\<open>/confirm/send/forgot/<email>?info=ok\<close>, and with \<^verbatim>\<open>info\<close> false to
  \<^verbatim>\<open>/confirm/send/forgot/<email>\<close>; two calls that differ in \<^verbatim>\<open>info\<close> alone issue
  requests that differ in the URL alone and give the callback the same arguments.
\<close>

theorem info_only_in_url:
  assumes "s \<noteq> []"
  shows "(\<exists>rq. requestPasswordReset c (JStr s) (JBool True) lang = Issues rq
            \<and> http_method rq = ''POST''
            \<and> url rq = makeAPIUrl c (''/confirm/send/forgot/'' @ s @ ''?info=ok''))
       \<and> requestPasswordReset c (JStr s) JUndefined lang
            = requestPasswordReset c (JStr s) (JBool True) lang
       \<and> (\<exists>rq. requestPasswordReset c (JStr s) (JBool False) lang = Issues rq
            \<and> http_method rq = ''POST''
            \<and> url rq = makeAPIUrl c (''/confirm/send/forgot/'' @ s))
       \<and> (\<exists>rq rq'. requestPasswordReset_run c (JStr s) info lang r
                       = Done (Some rq) (requestPasswordReset_settle r)
            \<and> requestPasswordReset_run c (JStr s) info' lang r
                       = Done (Some rq') (requestPasswordReset_settle r)
            \<and> rq' = rq\<lparr>url := url rq'\<rparr>)"
  using assms
  by (simp add: requestPasswordReset_def requestPasswordReset_run_def default_to_def)

theorem info_only_in_url_witness:
  "''jane@example.org'' \<noteq> []
   \<and> requestPasswordReset example_common (JStr ''jane@example.org'') JUndefined (JStr ''fr'')
       = Issues \<lparr>
           via = Fetch,
           http_method = ''POST'',
           url = ''https://api.example.org/confirm/send/forgot/jane@example.org?info=ok'',
           headers = [
             (''x-tidepool-trace-session'', JStr ''trace-1''),
             (''x-tidepool-language'', JStr ''fr'')],
           send = None,
           cache = Some ''no-cache'' \<rparr>
   \<and> requestPasswordReset example_common (JStr ''jane@example.org'') (JBool False) (JStr ''fr'')
       = Issues \<lparr>
           via = Fetch,
           http_method = ''POST'',
           url = ''https://api.example.org/confirm/send/forgot/jane@example.org'',
           headers = [
             (''x-tidepool-trace-session'', JStr ''trace-1''),
             (''x-tidepool-language'', JStr ''fr'')],
           send = None,
           cache = Some ''no-cache'' \<rparr>"
  using info_only_in_url [of "''jane@example.org''" example_common "JStr ''fr''"
      JUndefined "Rejects JNull" "JBool False"]
  by (auto simp add: example_common_def requestPasswordReset_def requestPasswordReset_run_def default_to_def)

end
